theory Spec2Isabelle
  imports Main "HOL-Library.Word"
begin

section \<open>The HTTP component: homeassistant/components/http/__init__.py\<close>

text \<open>
  A shallow embedding of the request dispatcher (\<^verbatim>\<open>request_handler_factory\<close>), the JSON
  response helper (\<^verbatim>\<open>HomeAssistantView.json\<close>), the server object
  (\<^verbatim>\<open>HomeAssistantHTTP.__init__\<close>, \<^verbatim>\<open>HomeAssistantHTTP.start\<close>) and, from the
  specification, the ban tracker and the authenticator that \<^verbatim>\<open>__init__\<close> installs.
\<close>

subsection \<open>Python values\<close>

text \<open>
  A Python \<^verbatim>\<open>str\<close> is a sequence of code points, \<^verbatim>\<open>bytes\<close> a sequence of octets.
  A response object holds the body, the status, the content type and the headers that
  its constructor (aiohttp's \<^verbatim>\<open>web.Response\<close>) has accepted, and the compression
  flag that \<^verbatim>\<open>enable_compression\<close> sets.
\<close>

type_synonym pystr = "nat list"
type_synonym bytes = "8 word list"

datatype pyobj =
    PyNone
  | PyBool bool
  | PyInt int
  | PyStr pystr
  | PyBytes bytes
  | PyTuple "pyobj list"
  | PyList "pyobj list"
  | PyDict "(pyobj \<times> pyobj) list"
  | PyStreamResponse response
and response =
    Response (body: "bytes option") (status: pyobj) (content_type: "pystr option")
      (headers: "(pystr \<times> pystr) list option") (compression: bool)

text \<open>The exceptions the modelled code can raise.\<close>

datatype exn =
    HTTPUnauthorized
  | AssertionError pyobj
  | ValueError
  | TypeError
  | UnicodeEncodeError nat
  | HandlerError string

definition str :: "string \<Rightarrow> pystr" where
  "str s = map of_char s"

text \<open>Truth value of an object, as \<^verbatim>\<open>not x\<close> and \<^verbatim>\<open>if x\<close> test it.\<close>

fun truthy :: "pyobj \<Rightarrow> bool" where
  "truthy PyNone = False"
| "truthy (PyBool b) = b"
| "truthy (PyInt n) = (n \<noteq> 0)"
| "truthy (PyStr s) = (s \<noteq> [])"
| "truthy (PyBytes b) = (b \<noteq> [])"
| "truthy (PyTuple xs) = (xs \<noteq> [])"
| "truthy (PyList xs) = (xs \<noteq> [])"
| "truthy (PyDict kvs) = (kvs \<noteq> [])"
| "truthy (PyStreamResponse r) = True"

subsection \<open>\<^verbatim>\<open>str.encode('utf-8')\<close>\<close>

text \<open>
  One code point becomes one to four octets. A surrogate (U+D800 to U+DFFF) has no
  UTF-8 encoding: Python raises \<^verbatim>\<open>UnicodeEncodeError\<close>. Code points stop at U+10FFFF.
\<close>

definition utf8_char :: "nat \<Rightarrow> bytes option" where
  "utf8_char c =
     (if c < 0x80 then Some [of_nat c]
      else if c < 0x800 then Some [of_nat (0xC0 + c div 0x40), of_nat (0x80 + c mod 0x40)]
      else if 0xD800 \<le> c \<and> c \<le> 0xDFFF then None
      else if c < 0x10000 then
        Some [of_nat (0xE0 + c div 0x1000), of_nat (0x80 + (c div 0x40) mod 0x40),
              of_nat (0x80 + c mod 0x40)]
      else if c < 0x110000 then
        Some [of_nat (0xF0 + c div 0x40000), of_nat (0x80 + (c div 0x1000) mod 0x40),
              of_nat (0x80 + (c div 0x40) mod 0x40), of_nat (0x80 + c mod 0x40)]
      else None)"

fun encode_utf8 :: "pystr \<Rightarrow> exn + bytes" where
  "encode_utf8 [] = Inr []"
| "encode_utf8 (c # cs) =
     (case utf8_char c of
        None \<Rightarrow> Inl (UnicodeEncodeError c)
      | Some bs \<Rightarrow> (case encode_utf8 cs of Inl e \<Rightarrow> Inl e | Inr rest \<Rightarrow> Inr (bs @ rest)))"

subsection \<open>\<^verbatim>\<open>int(x)\<close>\<close>

text \<open>
  The built-in \<^verbatim>\<open>int\<close> of Python 3.6 and later, in base 10. An integer is itself and a
  boolean is 0 or 1. Text is read as a number: white space around it, a sign, then
  decimal digits, with single underscores allowed between digits; anything else raises
  \<^verbatim>\<open>ValueError\<close>. In a \<^verbatim>\<open>str\<close>, a code point over 127 counts when it is a space or
  a decimal digit of Unicode (the spaces and the blocks of ten digits below are those of
  Unicode 14); in \<^verbatim>\<open>bytes\<close> only ASCII counts. Any other object of this model raises
  \<^verbatim>\<open>TypeError\<close>.
\<close>

definition ascii_space :: "nat \<Rightarrow> bool" where
  "ascii_space c = (c = 32 \<or> (9 \<le> c \<and> c \<le> 13))"

definition is_digit :: "nat \<Rightarrow> bool" where
  "is_digit c = (48 \<le> c \<and> c \<le> 57)"

definition unicode_spaces :: "nat list" where
  "unicode_spaces =
     [0x85, 0xA0, 0x1680, 0x2000, 0x2001, 0x2002, 0x2003, 0x2004, 0x2005, 0x2006, 0x2007,
      0x2008, 0x2009, 0x200A, 0x2028, 0x2029, 0x202F, 0x205F, 0x3000]"

definition decimal_blocks :: "nat list" where
  "decimal_blocks =
     [1632, 1776, 1984, 2406, 2534, 2662, 2790, 2918, 3046, 3174, 3302, 3430, 3558, 3664,
      3792, 3872, 4160, 4240, 6112, 6160, 6470, 6608, 6784, 6800, 6992, 7088, 7232, 7248,
      42528, 43216, 43264, 43472, 43504, 43600, 44016, 65296, 66720, 68912, 69734, 69872,
      69942, 70096, 70384, 70736, 70864, 71248, 71360, 71472, 71904, 72016, 72784, 73040,
      73120, 92768, 92864, 93008, 120782, 120792, 120802, 120812, 120822, 123200, 123632,
      125264, 130032]"

definition decimal_value :: "nat \<Rightarrow> nat option" where
  "decimal_value c =
     (case filter (\<lambda>s. s \<le> c \<and> c < s + 10) decimal_blocks of
        [] \<Rightarrow> None
      | s # _ \<Rightarrow> Some (c - s))"

text \<open>One code point of a \<^verbatim>\<open>str\<close>, as the ASCII character that \<^verbatim>\<open>int\<close> reads.\<close>

definition to_ascii :: "nat \<Rightarrow> nat option" where
  "to_ascii c =
     (if c < 128 then Some c
      else if c \<in> set unicode_spaces then Some 32
      else map_option (\<lambda>d. 48 + d) (decimal_value c))"

text \<open>Digits, with single underscores between digits only.\<close>

fun well_grouped :: "nat list \<Rightarrow> bool" where
  "well_grouped [] = False"
| "well_grouped [c] = is_digit c"
| "well_grouped (c # d # cs) =
     (is_digit c \<and> (if d = 95 then well_grouped cs else well_grouped (d # cs)))"

definition parse_int :: "nat list \<Rightarrow> int option" where
  "parse_int cs =
     (let cs1 = dropWhile ascii_space cs;
          negative = (case cs1 of [] \<Rightarrow> False | c # r \<Rightarrow> c = 45);
          cs2 = (case cs1 of [] \<Rightarrow> [] | c # r \<Rightarrow> if c = 45 \<or> c = 43 then r else cs1);
          run = takeWhile (\<lambda>c. is_digit c \<or> c = 95) cs2;
          rest = dropWhile (\<lambda>c. is_digit c \<or> c = 95) cs2;
          n = foldl (\<lambda>n c. 10 * n + (c - 48)) 0 (filter is_digit run)
      in if well_grouped run \<and> dropWhile ascii_space rest = []
         then Some (if negative then - int n else int n)
         else None)"

fun py_int :: "pyobj \<Rightarrow> exn + int" where
  "py_int (PyInt n) = Inr n"
| "py_int (PyBool b) = Inr (if b then 1 else 0)"
| "py_int (PyStr s) =
     (case those (map to_ascii s) of
        None \<Rightarrow> Inl ValueError
      | Some cs \<Rightarrow> (case parse_int cs of None \<Rightarrow> Inl ValueError | Some n \<Rightarrow> Inr n))"
| "py_int (PyBytes b) =
     (case parse_int (map unat b) of None \<Rightarrow> Inl ValueError | Some n \<Rightarrow> Inr n)"
| "py_int other = Inl TypeError"

subsection \<open>Requests, views and the world the handlers act on\<close>

datatype request_key = KEY_AUTHENTICATED | KEY_REAL_IP | OtherKey string

record hass =
  is_running :: bool

record request =
  app_hass :: hass                                \<comment> \<open>\<^verbatim>\<open>request.app['hass']\<close>\<close>
  items :: "request_key \<rightharpoonup> pyobj"                 \<comment> \<open>the request's own mapping\<close>
  path :: pystr
  match_info :: "(pystr \<times> pystr) list"

record view =
  url :: "pystr option"
  extra_urls :: "pystr list"
  requires_auth :: bool

text \<open>\<^verbatim>\<open>request.get(key, default)\<close>\<close>

definition request_get :: "request \<Rightarrow> request_key \<Rightarrow> pyobj \<Rightarrow> pyobj" where
  "request_get rq k dflt = (case items rq k of None \<Rightarrow> dflt | Some v \<Rightarrow> v)"

text \<open>
  What \<^verbatim>\<open>_LOGGER\<close> has been given, and the state the handlers can change; a handler
  takes the request and this world, and returns a value or raises.
\<close>

datatype log_record =
    Serving pystr pyobj pyobj      \<comment> \<open>info: path, \<^verbatim>\<open>request.get(KEY_REAL_IP)\<close>, authenticated\<close>
  | SslReadFailed pystr string     \<comment> \<open>error: certificate path, the OSError\<close>
  | CreateServerFailed int string  \<comment> \<open>error: port, the OSError\<close>

record 's world =
  logged :: "log_record list"
  store :: 's

type_synonym 's handler = "request \<Rightarrow> 's world \<Rightarrow> (exn + pyobj) \<times> 's world"

definition logger :: "log_record \<Rightarrow> 's world \<Rightarrow> 's world" where
  "logger r w = w\<lparr>logged := logged w @ [r]\<rparr>"

subsection \<open>The dispatcher: \<^verbatim>\<open>request_handler_factory\<close>\<close>

text \<open>
  \<^verbatim>\<open>web.Response(body=..., status=..., content_type=..., headers=...)\<close> of aiohttp; an
  omitted argument is \<^verbatim>\<open>None\<close>, and compression is off until enabled. The constructor
  raises \<^verbatim>\<open>ValueError\<close> for a content type that names a charset, and for a content
  type given together with headers that carry \<^verbatim>\<open>Content-Type\<close> (header names compare
  without case); it then stores \<^verbatim>\<open>int(status)\<close>, which may raise.
\<close>

definition ascii_lower :: "nat \<Rightarrow> nat" where
  "ascii_lower c = (if 65 \<le> c \<and> c \<le> 90 then c + 32 else c)"

definition has_content_type :: "(pystr \<times> pystr) list option \<Rightarrow> bool" where
  "has_content_type hs =
     (case hs of
        None \<Rightarrow> False
      | Some kvs \<Rightarrow> list_ex (\<lambda>(k, v). map ascii_lower k = str ''content-type'') kvs)"

fun contains :: "pystr \<Rightarrow> pystr \<Rightarrow> bool" where
  "contains pat [] = (pat = [])"
| "contains pat (c # cs) = (take (length pat) (c # cs) = pat \<or> contains pat cs)"

definition web_Response ::
  "bytes option \<Rightarrow> pyobj \<Rightarrow> pystr option \<Rightarrow> (pystr \<times> pystr) list option \<Rightarrow> exn + response" where
  "web_Response b st ct hs =
     (if (case ct of None \<Rightarrow> False | Some t \<Rightarrow> contains (str ''charset'') t) then Inl ValueError
      else if ct \<noteq> None \<and> has_content_type hs then Inl ValueError
      else (case py_int st of
              Inl e \<Rightarrow> Inl e
            | Inr n \<Rightarrow> Inr (Response b (PyInt n) ct hs False)))"

text \<open>\<^verbatim>\<open>result, status_code = result\<close>: only a tuple of two elements unpacks.\<close>

definition unpack2 :: "pyobj list \<Rightarrow> exn + (pyobj \<times> pyobj)" where
  "unpack2 xs = (case xs of [a, b] \<Rightarrow> Inr (a, b) | _ \<Rightarrow> Inl ValueError)"

text \<open>Lines 415 to 428: the body and the status code of a result that is no response.\<close>

definition coerce_body :: "pyobj \<Rightarrow> pyobj \<Rightarrow> exn + response" where
  "coerce_body result status_code =
     (case result of
        PyStr s \<Rightarrow>
          (case encode_utf8 s of
             Inl e \<Rightarrow> Inl e
           | Inr b \<Rightarrow> web_Response (Some b) status_code None None)
      | PyNone \<Rightarrow> web_Response (Some []) status_code None None
      | PyBytes b \<Rightarrow> web_Response (Some b) status_code None None
      | other \<Rightarrow> Inl (AssertionError other))"

text \<open>Lines 411 to 428: from the handler's result to the response.\<close>

definition to_response :: "pyobj \<Rightarrow> exn + response" where
  "to_response result =
     (case result of
        PyStreamResponse r \<Rightarrow> Inr r
      | PyTuple xs \<Rightarrow>
          (case unpack2 xs of
             Inl e \<Rightarrow> Inl e
           | Inr (result', status_code) \<Rightarrow> coerce_body result' status_code)
      | _ \<Rightarrow> coerce_body result (PyInt 200))"

text \<open>
  \<^verbatim>\<open>handle(request)\<close>, the coroutine that \<^verbatim>\<open>request_handler_factory(view, handler)\<close>
  returns. A handler that is a coroutine is awaited; its result is the handler's result
  here either way.
\<close>

definition handle :: "view \<Rightarrow> 's handler \<Rightarrow> request \<Rightarrow> 's world \<Rightarrow> (exn + response) \<times> 's world" where
  "handle vw handler rq w =
     (if \<not> is_running (app_hass rq) then (web_Response None (PyInt 503) None None, w)
      else
        let authenticated = request_get rq KEY_AUTHENTICATED (PyBool False) in
        if requires_auth vw \<and> \<not> truthy authenticated then (Inl HTTPUnauthorized, w)
        else
          let w1 = logger (Serving (path rq) (request_get rq KEY_REAL_IP PyNone) authenticated) w in
          (case handler rq w1 of
             (Inl e, w2) \<Rightarrow> (Inl e, w2)
           | (Inr result, w2) \<Rightarrow> (to_response result, w2)))"

text \<open>
  The request reaches the handler: the host runs, and the view asks for no
  authentication or the request carries a true marker. The handler then sees the world
  with the line that \<^verbatim>\<open>_LOGGER.info\<close> has written.
\<close>

definition admitted :: "view \<Rightarrow> request \<Rightarrow> bool" where
  "admitted vw rq =
     (is_running (app_hass rq) \<and>
      \<not> (requires_auth vw \<and> \<not> truthy (request_get rq KEY_AUTHENTICATED (PyBool False))))"

definition serving :: "request \<Rightarrow> 's world \<Rightarrow> 's world" where
  "serving rq w =
     logger (Serving (path rq) (request_get rq KEY_REAL_IP PyNone)
       (request_get rq KEY_AUTHENTICATED (PyBool False))) w"

text \<open>
  The results the assertion's message lists: a response, or \<^verbatim>\<open>None\<close>, a string or
  bytes, bare or as the first of a pair. \<open>payload\<close> is what line 420 tests: the first
  element of a pair, or the result itself.
\<close>

fun is_body :: "pyobj \<Rightarrow> bool" where
  "is_body PyNone = True"
| "is_body (PyStr s) = True"
| "is_body (PyBytes b) = True"
| "is_body other = False"

fun conforming :: "pyobj \<Rightarrow> bool" where
  "conforming (PyStreamResponse r) = True"
| "conforming (PyTuple xs) = (case xs of [b, st] \<Rightarrow> is_body b | _ \<Rightarrow> False)"
| "conforming other = is_body other"

fun unpackable :: "pyobj \<Rightarrow> bool" where
  "unpackable (PyTuple xs) = (length xs = 2)"
| "unpackable other = True"

fun payload :: "pyobj \<Rightarrow> pyobj" where
  "payload (PyTuple xs) = (case xs of [b, st] \<Rightarrow> b | _ \<Rightarrow> PyTuple xs)"
| "payload other = other"

subsection \<open>The JSON response helper: \<^verbatim>\<open>HomeAssistantView.json\<close>\<close>





subsection \<open>The ban tracker and the authenticator\<close>

text \<open>
  An address is a number, a network a range of addresses (first and last).
\<close>

type_synonym addr = nat
type_synonym network = "addr \<times> addr"

definition NO_LOGIN_ATTEMPT_THRESHOLD :: int where
  "NO_LOGIN_ATTEMPT_THRESHOLD = - 1"

record ban_tracker =
  login_threshold :: int
  failed_login_attempts :: "addr \<Rightarrow> nat"

record authenticator =
  trusted_networks :: "network list"
  api_password :: "pystr option"

text \<open>What the front door sees of a request: where it comes from and what it presents.\<close>

record peer_request =
  source :: addr
  credential :: "pystr option"

text \<open>
  Modelled from the spec: the ban tracker is the module \<^verbatim>\<open>.ban\<close>, which is not among
  the sources. Section 4.2: once the count of an address is at or over the threshold,
  its requests are rejected; the threshold "unlimited" (the constant
  \<^verbatim>\<open>NO_LOGIN_ATTEMPT_THRESHOLD\<close> of this file) disables the lockout while the tracker
  still counts.
\<close>

definition is_banned :: "ban_tracker \<Rightarrow> addr \<Rightarrow> bool" where
  "is_banned t a =
     (login_threshold t \<noteq> NO_LOGIN_ATTEMPT_THRESHOLD \<and>
      login_threshold t \<le> int (failed_login_attempts t a))"

definition process_wrong_login :: "ban_tracker \<Rightarrow> addr \<Rightarrow> ban_tracker" where
  "process_wrong_login t a =
     t\<lparr>failed_login_attempts := (failed_login_attempts t)(a := Suc (failed_login_attempts t a))\<rparr>"

text \<open>
  Modelled from the spec: the authenticator is the module \<^verbatim>\<open>.auth\<close>, which is not
  among the sources. Section 4.1: a request is authenticated if its source address is
  within a trusted network or the credential it presents equals the configured one; with
  no credential configured every request is authenticated.
\<close>

definition is_trusted_ip :: "network list \<Rightarrow> addr \<Rightarrow> bool" where
  "is_trusted_ip nets a = (\<exists>(lo, hi) \<in> set nets. lo \<le> a \<and> a \<le> hi)"

definition authenticate :: "authenticator \<Rightarrow> peer_request \<Rightarrow> bool" where
  "authenticate au rq =
     (case api_password au of
        None \<Rightarrow> True
      | Some pw \<Rightarrow> is_trusted_ip (trusted_networks au) (source rq) \<or> credential rq = Some pw)"

subsection \<open>The server object: \<^verbatim>\<open>HomeAssistantHTTP\<close>\<close>

datatype middleware = staticresource_middleware | OtherMiddleware string

text \<open>
  The application: its middlewares and frozen flag, whether \<^verbatim>\<open>startup()\<close> has run, and
  what the set-up functions of \<^verbatim>\<open>__init__\<close> have installed.
\<close>

record application =
  middlewares :: "middleware list"
  frozen :: bool
  started :: bool
  real_ip :: "bool option"
  bans :: "ban_tracker option"
  auth :: "authenticator option"
  cors :: "pystr list option"
  hass_entry :: "hass option"          \<comment> \<open>\<^verbatim>\<open>app['hass']\<close>\<close>

definition web_Application :: "middleware list \<Rightarrow> application" where
  "web_Application ms =
     \<lparr>middlewares = ms, frozen = False, started = False, real_ip = None, bans = None,
      auth = None, cors = None, hass_entry = None\<rparr>"

text \<open>
  Modelled from the spec: \<^verbatim>\<open>setup_real_ip\<close>, \<^verbatim>\<open>setup_bans\<close>, \<^verbatim>\<open>setup_auth\<close> and
  \<^verbatim>\<open>setup_cors\<close> are imported from modules that are not among the sources. Each
  installs its component with the configuration it is given; a new tracker has counted
  nothing.
\<close>

definition setup_real_ip :: "application \<Rightarrow> bool \<Rightarrow> application" where
  "setup_real_ip ap use_x_forwarded_for = ap\<lparr>real_ip := Some use_x_forwarded_for\<rparr>"

definition setup_bans :: "application \<Rightarrow> int \<Rightarrow> application" where
  "setup_bans ap threshold =
     ap\<lparr>bans := Some \<lparr>login_threshold = threshold, failed_login_attempts = (\<lambda>a. 0)\<rparr>\<rparr>"

definition setup_auth :: "application \<Rightarrow> network list \<Rightarrow> pystr option \<Rightarrow> application" where
  "setup_auth ap nets pw = ap\<lparr>auth := Some \<lparr>trusted_networks = nets, api_password = pw\<rparr>\<rparr>"

definition setup_cors :: "application \<Rightarrow> pystr list \<Rightarrow> application" where
  "setup_cors ap origins = ap\<lparr>cors := Some origins\<rparr>"

record ('h, 'v) HomeAssistantHTTP =
  app :: application
  the_hass :: hass
  http_api_password :: "pystr option"
  ssl_certificate :: "pystr option"
  ssl_key :: "pystr option"
  server_host :: pystr
  server_port :: int
  is_ban_enabled :: bool
  priv_handler :: "'h option"          \<comment> \<open>\<^verbatim>\<open>self._handler\<close>\<close>
  server :: "'v option"

text \<open>\<^verbatim>\<open>HomeAssistantHTTP.__init__\<close>, lines 173 to 202.\<close>

definition init ::
  "hass \<Rightarrow> pystr option \<Rightarrow> pystr option \<Rightarrow> pystr option \<Rightarrow> pystr \<Rightarrow> int \<Rightarrow> pystr list \<Rightarrow>
   bool \<Rightarrow> network list \<Rightarrow> int \<Rightarrow> bool \<Rightarrow> ('h, 'v) HomeAssistantHTTP" where
  "init hs password certificate key host port cors_origins use_x_forwarded_for nets
     threshold ban_enabled =
     (let ap0 = web_Application [staticresource_middleware];
          ap1 = setup_real_ip ap0 use_x_forwarded_for;
          ap2 = (if ban_enabled then setup_bans ap1 threshold else ap1);
          ap3 = setup_auth ap2 nets password;
          ap4 = (if cors_origins \<noteq> [] then setup_cors ap3 cors_origins else ap3);
          ap5 = ap4\<lparr>hass_entry := Some hs\<rparr>
      in \<lparr>app = ap5, the_hass = hs, http_api_password = password,
          ssl_certificate = certificate, ssl_key = key, server_host = host,
          server_port = port, is_ban_enabled = ban_enabled, priv_handler = None,
          server = None\<rparr>)"

text \<open>
  Modelled from the spec: the order in which the installed components see a request
  (sections 4.1 and 4.2; the code that runs them is in \<^verbatim>\<open>.ban\<close> and \<^verbatim>\<open>.auth\<close>). A
  banned address is rejected before any credential check; otherwise the authenticator
  decides, and a failed attempt is counted by the tracker, if there is one. Where no
  authenticator is installed no request is marked as authenticated.
\<close>

datatype verdict = Rejected | Unauthenticated | Authenticated

definition screen :: "application \<Rightarrow> peer_request \<Rightarrow> verdict \<times> application" where
  "screen ap rq =
     (if (case bans ap of None \<Rightarrow> False | Some t \<Rightarrow> is_banned t (source rq)) then (Rejected, ap)
      else if (case auth ap of None \<Rightarrow> False | Some au \<Rightarrow> authenticate au rq) then (Authenticated, ap)
      else (Unauthenticated, ap\<lparr>bans := map_option (\<lambda>t. process_wrong_login t (source rq)) (bans ap)\<rparr>))"

text \<open>A sequence of requests, one after the other: the verdicts and the application after.\<close>

fun screen_all :: "application \<Rightarrow> peer_request list \<Rightarrow> verdict list \<times> application" where
  "screen_all ap [] = ([], ap)"
| "screen_all ap (rq # rqs) =
     (case screen ap rq of (v, ap') \<Rightarrow>
        (case screen_all ap' rqs of (vs, ap'') \<Rightarrow> (v # vs, ap'')))"

text \<open>The failed authentication attempts of an address among the requests.\<close>

definition failed_attempts :: "application \<Rightarrow> peer_request list \<Rightarrow> addr \<Rightarrow> nat" where
  "failed_attempts ap rqs a =
     length (filter (\<lambda>(rq, v). source rq = a \<and> v = Unauthenticated)
       (zip rqs (fst (screen_all ap rqs))))"

subsection \<open>\<^verbatim>\<open>HomeAssistantHTTP.start\<close>\<close>

text \<open>
  What the libraries and the event loop answer: loading the certificate chain into a new
  TLS context (an \<^verbatim>\<open>OSError\<close>, or nothing), \<^verbatim>\<open>app.make_handler\<close>,
  \<^verbatim>\<open>loop.create_server\<close> (an \<^verbatim>\<open>OSError\<close>, or the server) and
  \<^verbatim>\<open>app._prepare_middleware\<close>.
\<close>

datatype ssl_context = SSLContext pystr "pystr option"

record ('h, 'v) environment =
  load_cert_chain :: "pystr \<Rightarrow> pystr option \<Rightarrow> string option"
  make_handler :: "application \<Rightarrow> 'h"
  create_server :: "'h \<Rightarrow> pystr \<Rightarrow> int \<Rightarrow> ssl_context option \<Rightarrow> string + 'v"
  prepare_middleware :: "middleware list \<Rightarrow> middleware list"

text \<open>
  Lines 284 to 296: the TLS context, or the line that is logged before \<open>start\<close>
  returns.
\<close>

definition make_context ::
  "('h, 'v) environment \<Rightarrow> ('h, 'v) HomeAssistantHTTP \<Rightarrow> log_record + ssl_context option" where
  "make_context env self =
     (case ssl_certificate self of
        None \<Rightarrow> Inr None
      | Some cert \<Rightarrow>
          if cert = [] then Inr None
          else (case load_cert_chain env cert (ssl_key self) of
                  Some err \<Rightarrow> Inl (SslReadFailed cert err)
                | None \<Rightarrow> Inr (Some (SSLContext cert (ssl_key self)))))"

text \<open>Lines 308 to 313: the server is stored, or the error is logged.\<close>

definition bind_server ::
  "('h, 'v) environment \<Rightarrow> ssl_context option \<Rightarrow> 'h \<Rightarrow> ('h, 'v) HomeAssistantHTTP \<Rightarrow>
   log_record list \<Rightarrow> ('h, 'v) HomeAssistantHTTP \<times> log_record list" where
  "bind_server env context h self lg =
     (case create_server env h (server_host self) (server_port self) context of
        Inr srv \<Rightarrow> (self\<lparr>server := Some srv\<rparr>, lg)
      | Inl err \<Rightarrow> (self, lg @ [CreateServerFailed (server_port self) err]))"

definition start ::
  "('h, 'v) environment \<Rightarrow> ('h, 'v) HomeAssistantHTTP \<Rightarrow> log_record list \<Rightarrow>
   ('h, 'v) HomeAssistantHTTP \<times> log_record list" where
  "start env self lg =
     (let self1 = self\<lparr>app := (app self)\<lparr>started := True\<rparr>\<rparr> in
      case make_context env self1 of
        Inl failure \<Rightarrow> (self1, lg @ [failure])
      | Inr context \<Rightarrow>
          let self2 = self1\<lparr>app := (app self1)\<lparr>frozen := True\<rparr>\<rparr>;
              h = make_handler env (app self2);
              self3 = self2\<lparr>priv_handler := Some h\<rparr>;
              (self4, lg4) = bind_server env context h self3 lg;
              self5 = self4\<lparr>app := (app self4)
                \<lparr>middlewares := prepare_middleware env (middlewares (app self4))\<rparr>\<rparr>;
              self6 = self5\<lparr>app := (app self5)\<lparr>frozen := False\<rparr>\<rparr>
          in (self6, lg4))"

subsection \<open>Concrete inputs\<close>

text \<open>
  An authenticated request for \<^verbatim>\<open>/api/states\<close> on a running host, a view that requires
  authentication, a world with nothing logged, and a handler that returns a given result
  and counts its calls in the store.
\<close>

definition example_request :: request where
  "example_request =
     \<lparr>app_hass = \<lparr>is_running = True\<rparr>,
      items = [KEY_AUTHENTICATED \<mapsto> PyBool True, KEY_REAL_IP \<mapsto> PyStr (str ''10.0.0.7'')],
      path = str ''/api/states'', match_info = []\<rparr>"

definition example_view :: view where
  "example_view = \<lparr>url = Some (str ''/api/states''), extra_urls = [], requires_auth = True\<rparr>"

definition example_world :: "nat world" where
  "example_world = \<lparr>logged = [], store = 0\<rparr>"

definition returning :: "pyobj \<Rightarrow> nat handler" where
  "returning result rq w = (Inr result, w\<lparr>store := Suc (store w)\<rparr>)"

definition served_world :: "nat world" where
  "served_world =
     \<lparr>logged = [Serving (str ''/api/states'') (PyStr (str ''10.0.0.7'')) (PyBool True)],
      store = 1\<rparr>"


definition example_server :: "bool \<Rightarrow> int \<Rightarrow> (nat, nat) HomeAssistantHTTP" where
  "example_server ban_enabled threshold =
     init \<lparr>is_running = False\<rparr> (Some (str ''secret'')) None None (str ''0.0.0.0'') 8123 []
       False [(167772160, 167772415)] threshold ban_enabled"

definition wrong_login :: peer_request where
  "wrong_login = \<lparr>source = 3232235777, credential = Some (str ''guess'')\<rparr>"

definition right_login :: peer_request where
  "right_login = \<lparr>source = 3232235777, credential = Some (str ''secret'')\<rparr>"

definition port_in_use :: "(nat, nat) environment" where
  "port_in_use =
     \<lparr>load_cert_chain = (\<lambda>cert key. None), make_handler = (\<lambda>ap. 1),
      create_server = (\<lambda>h host port context. Inl ''address already in use''),
      prepare_middleware = rev\<rparr>"

section \<open>Properties\<close>

lemmas example_defs = example_request_def example_view_def example_world_def returning_def
  served_world_def request_get_def admitted_def serving_def logger_def

subsection \<open>The dispatcher\<close>

text \<open>Once a request is admitted, the response is made from the handler's result.\<close>

lemma handle_invoked:
  assumes "admitted vw rq" and "handler rq (serving rq w) = (Inr result, w')"
  shows "handle vw handler rq w = (to_response result, w')"
  using assms by (auto simp: handle_def admitted_def serving_def Let_def)

text \<open>
  The constructor accepts an integer status when no content type is given, and it raises
  nothing but \<^verbatim>\<open>ValueError\<close> and \<^verbatim>\<open>TypeError\<close>.
\<close>

lemma web_Response_int:
  "web_Response b (PyInt n) None hs = Inr (Response b (PyInt n) None hs False)"
  by (simp add: web_Response_def)

lemma py_int_error:
  "py_int st = Inl e \<Longrightarrow> e = ValueError \<or> e = TypeError"
  by (cases st) (auto split: option.splits)

lemma web_Response_error:
  "web_Response b st ct hs = Inl e \<Longrightarrow> e = ValueError \<or> e = TypeError"
  by (auto simp: web_Response_def split: if_splits sum.splits dest: py_int_error)

lemma example_admitted: "admitted example_view example_request"
  by (simp add: example_defs)

lemma example_returning:
  "returning result example_request (serving example_request example_world)
     = (Inr result, served_world)"
  by (simp add: example_defs)

text \<open>
  C2: when the host application is not running, the dispatcher returns the fixed
  response of status 503, whatever the view, the request's authentication marker and the
  handler are; nothing is logged and the handler's world is left as it was, so the check
  comes before the authentication check and before the handler.
\<close>

theorem not_running_503:
  assumes "\<not> is_running (app_hass rq)"
  shows "handle vw handler rq w = (Inr (Response None (PyInt 503) None None False), w)"
  using assms by (simp add: handle_def web_Response_def)

theorem not_running_503_witness:
  "\<not> is_running (app_hass (example_request\<lparr>app_hass := \<lparr>is_running = False\<rparr>\<rparr>)) \<and>
   handle example_view (returning (PyStr (str ''ok'')))
     (example_request\<lparr>app_hass := \<lparr>is_running = False\<rparr>\<rparr>) example_world
     = (Inr (Response None (PyInt 503) None None False), \<lparr>logged = [], store = 0\<rparr>)"
  using not_running_503 [of "example_request\<lparr>app_hass := \<lparr>is_running = False\<rparr>\<rparr>" example_view
      "returning (PyStr (str ''ok''))" example_world]
  by (simp add: example_defs)

text \<open>
  C3: on a running host, a request that is not authenticated, for a view that requires
  authentication, is answered by raising \<^verbatim>\<open>HTTPUnauthorized\<close>, whatever the handler is;
  nothing is logged and the handler's world is left as it was: the handler is not called.
\<close>

theorem unauthenticated_401:
  assumes "is_running (app_hass rq)" and "requires_auth vw"
    and "\<not> truthy (request_get rq KEY_AUTHENTICATED (PyBool False))"
  shows "handle vw handler rq w = (Inl HTTPUnauthorized, w)"
  using assms by (simp add: handle_def)

theorem unauthenticated_401_witness:
  "is_running (app_hass (example_request\<lparr>items := [KEY_AUTHENTICATED \<mapsto> PyBool False]\<rparr>)) \<and>
   requires_auth example_view \<and>
   \<not> truthy (request_get (example_request\<lparr>items := [KEY_AUTHENTICATED \<mapsto> PyBool False]\<rparr>)
        KEY_AUTHENTICATED (PyBool False)) \<and>
   handle example_view (returning (PyStr (str ''ok'')))
     (example_request\<lparr>items := [KEY_AUTHENTICATED \<mapsto> PyBool False]\<rparr>) example_world
     = (Inl HTTPUnauthorized, \<lparr>logged = [], store = 0\<rparr>)"
  using unauthenticated_401 [of "example_request\<lparr>items := [KEY_AUTHENTICATED \<mapsto> PyBool False]\<rparr>"
      example_view "returning (PyStr (str ''ok''))" example_world]
  by (simp add: example_defs)

text \<open>
  C4, as the code has it: when the handler of an admitted request returns a bare string
  that has a UTF-8 encoding, the response has status 200 and, as its body, that encoding
  of the string.
\<close>

theorem string_body_utf8_200:
  assumes "admitted vw rq" and "handler rq (serving rq w) = (Inr (PyStr s), w')"
    and "encode_utf8 s = Inr b"
  shows "handle vw handler rq w = (Inr (Response (Some b) (PyInt 200) None None False), w')"
  using assms handle_invoked [of vw rq handler w "PyStr s" w']
  by (simp add: to_response_def coerce_body_def web_Response_int)

theorem string_body_utf8_200_witness:
  "admitted example_view example_request \<and>
   returning (PyStr [0x20AC, 0x1F600, 0xE9]) example_request
       (serving example_request example_world)
     = (Inr (PyStr [0x20AC, 0x1F600, 0xE9]), served_world) \<and>
   encode_utf8 [0x20AC, 0x1F600, 0xE9]
     = Inr [0xE2, 0x82, 0xAC, 0xF0, 0x9F, 0x98, 0x80, 0xC3, 0xA9] \<and>
   handle example_view (returning (PyStr [0x20AC, 0x1F600, 0xE9])) example_request example_world
     = (Inr (Response (Some [0xE2, 0x82, 0xAC, 0xF0, 0x9F, 0x98, 0x80, 0xC3, 0xA9])
               (PyInt 200) None None False),
        served_world)"
proof -
  have e: "encode_utf8 [0x20AC, 0x1F600, 0xE9]
      = Inr [0xE2, 0x82, 0xAC, 0xF0, 0x9F, 0x98, 0x80, 0xC3, 0xA9]"
    by (simp add: utf8_char_def)
  show ?thesis
    using example_admitted example_returning [of "PyStr [0x20AC, 0x1F600, 0xE9]"] e
      string_body_utf8_200 [of example_view example_request
        "returning (PyStr [0x20AC, 0x1F600, 0xE9])" example_world "[0x20AC, 0x1F600, 0xE9]"
        served_world "[0xE2, 0x82, 0xAC, 0xF0, 0x9F, 0x98, 0x80, 0xC3, 0xA9]"]
    by simp
qed

text \<open>
  C4 as stated fails on a string without a UTF-8 encoding: for the string of the letter a
  and the surrogate U+D800, \<^verbatim>\<open>encode\<close> on line 421 raises \<^verbatim>\<open>UnicodeEncodeError\<close>
  and no response is made.
\<close>

theorem surrogate_string_raises:
  "admitted example_view example_request \<and>
   handle example_view (returning (PyStr [0x61, 0xD800])) example_request example_world
     = (Inl (UnicodeEncodeError 0xD800), served_world)"
  using handle_invoked [of example_view example_request "returning (PyStr [0x61, 0xD800])"
       example_world _ served_world, OF example_admitted example_returning]
  by (simp add: example_admitted to_response_def coerce_body_def utf8_char_def)

text \<open>
  C5, as the code has it: when the handler of an admitted request returns a pair of a
  body and an integer status, the response carries exactly that status, and its body is
  the one the same body gives when returned bare: empty for \<^verbatim>\<open>None\<close>, the bytes
  themselves, the UTF-8 encoding of a string that has one.
\<close>

theorem tuple_status_exact:
  assumes "admitted vw rq" and "handler rq (serving rq w) = (Inr (PyTuple [b, PyInt n]), w')"
    and "(b = PyNone \<and> bs = []) \<or> b = PyBytes bs \<or> (\<exists>s. b = PyStr s \<and> encode_utf8 s = Inr bs)"
  shows "handle vw handler rq w = (Inr (Response (Some bs) (PyInt n) None None False), w') \<and>
         to_response b = Inr (Response (Some bs) (PyInt 200) None None False)"
  using assms handle_invoked [of vw rq handler w "PyTuple [b, PyInt n]" w']
  by (auto simp: to_response_def unpack2_def coerce_body_def web_Response_int)

theorem tuple_status_exact_witness:
  "admitted example_view example_request \<and>
   returning (PyTuple [PyStr [0x6E, 0xE9, 0x20AC], PyInt 404]) example_request
       (serving example_request example_world)
     = (Inr (PyTuple [PyStr [0x6E, 0xE9, 0x20AC], PyInt 404]), served_world) \<and>
   encode_utf8 [0x6E, 0xE9, 0x20AC] = Inr [0x6E, 0xC3, 0xA9, 0xE2, 0x82, 0xAC] \<and>
   handle example_view (returning (PyTuple [PyStr [0x6E, 0xE9, 0x20AC], PyInt 404]))
       example_request example_world
     = (Inr (Response (Some [0x6E, 0xC3, 0xA9, 0xE2, 0x82, 0xAC]) (PyInt 404) None None False),
        served_world) \<and>
   to_response (PyStr [0x6E, 0xE9, 0x20AC])
     = Inr (Response (Some [0x6E, 0xC3, 0xA9, 0xE2, 0x82, 0xAC]) (PyInt 200) None None False)"
proof -
  have e: "encode_utf8 [0x6E, 0xE9, 0x20AC] = Inr [0x6E, 0xC3, 0xA9, 0xE2, 0x82, 0xAC]"
    by (simp add: utf8_char_def)
  show ?thesis
    using example_admitted
      example_returning [of "PyTuple [PyStr [0x6E, 0xE9, 0x20AC], PyInt 404]"] e
      tuple_status_exact [of example_view example_request
        "returning (PyTuple [PyStr [0x6E, 0xE9, 0x20AC], PyInt 404])" example_world
        "PyStr [0x6E, 0xE9, 0x20AC]" 404 served_world "[0x6E, 0xC3, 0xA9, 0xE2, 0x82, 0xAC]"]
    by simp
qed

text \<open>
  C5 as stated fails on a pair whose status is no integer, and on a pair whose body is a
  string without a UTF-8 encoding: for the pair of the string x and \<^verbatim>\<open>None\<close>, the
  constructor on line 428 raises \<^verbatim>\<open>TypeError\<close>; for the pair of the letter a with the
  surrogate U+D800 and 200, \<^verbatim>\<open>encode\<close> raises. Neither gets a response.
\<close>

theorem tuple_status_none_raises:
  "admitted example_view example_request \<and>
   handle example_view (returning (PyTuple [PyStr (str ''x''), PyNone])) example_request
       example_world
     = (Inl TypeError, served_world) \<and>
   handle example_view (returning (PyTuple [PyStr [0x61, 0xD800], PyInt 200])) example_request
       example_world
     = (Inl (UnicodeEncodeError 0xD800), served_world)"
  using
    handle_invoked [of example_view example_request
       "returning (PyTuple [PyStr (str ''x''), PyNone])"
       example_world _ served_world, OF example_admitted example_returning]
    handle_invoked [of example_view example_request
       "returning (PyTuple [PyStr [0x61, 0xD800], PyInt 200])"
       example_world _ served_world, OF example_admitted example_returning]
  by (simp add: example_admitted to_response_def unpack2_def coerce_body_def utf8_char_def
      web_Response_def str_def)

text \<open>
  A status given as text is stored as the number it spells: the pair of the string gone
  and the string 404 gets a response of status 404.
\<close>

lemma tuple_status_text_coerced:
  "to_response (PyTuple [PyStr (str ''gone''), PyStr (str ''404'')])
     = Inr (Response (Some [0x67, 0x6F, 0x6E, 0x65]) (PyInt 404) None None False)"
  by (simp add: to_response_def unpack2_def coerce_body_def utf8_char_def web_Response_def
      str_def to_ascii_def parse_int_def ascii_space_def is_digit_def)

text \<open>
  C6: when the handler of an admitted request returns a response object, the dispatcher
  returns that object as it is.
\<close>

theorem response_passthrough:
  assumes "admitted vw rq" and "handler rq (serving rq w) = (Inr (PyStreamResponse r), w')"
  shows "handle vw handler rq w = (Inr r, w')"
  using assms handle_invoked [of vw rq handler w "PyStreamResponse r" w']
  by (simp add: to_response_def)

theorem response_passthrough_witness:
  "admitted example_view example_request \<and>
   returning (PyStreamResponse (Response None (PyStr (str ''teapot'')) None (Some []) True))
       example_request (serving example_request example_world)
     = (Inr (PyStreamResponse (Response None (PyStr (str ''teapot'')) None (Some []) True)),
        served_world) \<and>
   handle example_view
       (returning (PyStreamResponse (Response None (PyStr (str ''teapot'')) None (Some []) True)))
       example_request example_world
     = (Inr (Response None (PyStr (str ''teapot'')) None (Some []) True), served_world)"
  using example_admitted
    example_returning [of "PyStreamResponse (Response None (PyStr (str ''teapot'')) None (Some []) True)"]
    response_passthrough [of example_view example_request
      "returning (PyStreamResponse (Response None (PyStr (str ''teapot'')) None (Some []) True))"
      example_world "Response None (PyStr (str ''teapot'')) None (Some []) True" served_world]
  by simp

text \<open>
  What the conversion does with a result that is outside the listed forms, and that the
  assertion is out of reach of a result within them.
\<close>

lemma to_response_nonconforming:
  assumes "\<not> conforming r" and "unpackable r"
  shows "to_response r = Inl (AssertionError (payload r))"
proof (cases r)
  case (PyTuple xs)
  with assms obtain b st where xs: "xs = [b, st]"
    by (auto simp: length_Suc_conv numeral_2_eq_2)
  with assms PyTuple have "\<not> is_body b" by simp
  then show ?thesis using PyTuple xs
    by (cases b) (simp_all add: to_response_def unpack2_def coerce_body_def)
qed (use assms in \<open>simp_all add: to_response_def coerce_body_def\<close>)

text \<open>
  Encoding fails on nothing but a code point without an encoding, and succeeds on every
  string of Unicode scalar values; ASCII text, such as \<^verbatim>\<open>json.dumps\<close> returns by
  default, is its own encoding.
\<close>

lemma encode_utf8_scalar_values:
  assumes "\<forall>c \<in> set s. c < 0xD800 \<or> (0xDFFF < c \<and> c < 0x110000)"
  shows "\<exists>b. encode_utf8 s = Inr b"
  using assms
proof (induction s)
  case Nil
  then show ?case by simp
next
  case (Cons c cs)
  then obtain rest where "encode_utf8 cs = Inr rest"
    by auto
  moreover from Cons.prems have "utf8_char c \<noteq> None"
    by (auto simp: utf8_char_def)
  ultimately show ?case
    by auto
qed

lemma encode_utf8_ascii:
  assumes "\<forall>c \<in> set s. c < 128"
  shows "encode_utf8 s = Inr (map of_nat s)"
  using assms by (induction s) (simp_all add: utf8_char_def)

lemma encode_utf8_error:
  "encode_utf8 s = Inl e \<Longrightarrow> \<exists>c. e = UnicodeEncodeError c"
  by (induction s arbitrary: e) (auto split: option.splits sum.splits)

lemma coerce_body_is_body:
  "is_body b \<Longrightarrow> coerce_body b st \<noteq> Inl (AssertionError x)"
  by (cases b)
    (auto simp: coerce_body_def split: sum.splits dest: encode_utf8_error web_Response_error)

lemma to_response_conforming:
  assumes "conforming r"
  shows "to_response r \<noteq> Inl (AssertionError x)"
proof (cases r)
  case (PyTuple xs)
  with assms obtain b st where xs: "xs = [b, st]" and "is_body b"
    by (auto split: list.splits)
  then show ?thesis using PyTuple
    by (simp add: to_response_def unpack2_def coerce_body_is_body)
qed (use assms coerce_body_is_body in \<open>simp_all add: to_response_def\<close>)

text \<open>
  C7, as the code has it: a result that is not of the listed forms and that unpacks (it
  is no tuple, or a tuple of two elements) fails the assertion, which reports the tested
  value, and no response is made; a result of the listed forms never fails the assertion.
\<close>

theorem nonconforming_asserts:
  assumes "admitted vw rq" and "handler rq (serving rq w) = (Inr result, w')"
  shows "(\<not> conforming result \<and> unpackable result \<longrightarrow>
            handle vw handler rq w = (Inl (AssertionError (payload result)), w')) \<and>
         (conforming result \<longrightarrow>
            (\<forall>x. fst (handle vw handler rq w) \<noteq> Inl (AssertionError x)))"
  using handle_invoked [of vw rq handler w result w', OF assms]
    to_response_nonconforming [of result] to_response_conforming [of result]
  by simp

theorem nonconforming_asserts_witness:
  "admitted example_view example_request \<and>
   \<not> conforming (PyTuple [PyList [], PyInt 200]) \<and> unpackable (PyTuple [PyList [], PyInt 200]) \<and>
   handle example_view (returning (PyTuple [PyList [], PyInt 200])) example_request example_world
     = (Inl (AssertionError (PyList [])), served_world) \<and>
   conforming (PyTuple [PyNone, PyInt 204]) \<and>
   handle example_view (returning (PyTuple [PyNone, PyInt 204])) example_request example_world
     = (Inr (Response (Some []) (PyInt 204) None None False), served_world)"
proof -
  have "handle example_view (returning (PyTuple [PyNone, PyInt 204])) example_request example_world
     = (Inr (Response (Some []) (PyInt 204) None None False), served_world)"
    using handle_invoked [of example_view example_request "returning (PyTuple [PyNone, PyInt 204])"
       example_world _ served_world, OF example_admitted example_returning]
    by (simp add: to_response_def unpack2_def coerce_body_def web_Response_def)
  then show ?thesis
    using example_admitted example_returning [of "PyTuple [PyList [], PyInt 200]"]
      nonconforming_asserts [of example_view example_request
        "returning (PyTuple [PyList [], PyInt 200])" example_world
        "PyTuple [PyList [], PyInt 200]" served_world]
    by simp
qed

text \<open>
  C7 as stated fails on a tuple that is not a pair: the tuple holding only the integer 5
  is none of the listed forms, and the dispatcher raises the \<^verbatim>\<open>ValueError\<close> of the
  unpacking at line 418, not the assertion.
\<close>

theorem short_tuple_value_error:
  "admitted example_view example_request \<and>
   \<not> conforming (PyTuple [PyInt 5]) \<and>
   handle example_view (returning (PyTuple [PyInt 5])) example_request example_world
     = (Inl ValueError, served_world)"
  using handle_invoked [of example_view example_request "returning (PyTuple [PyInt 5])"
       example_world _ served_world, OF example_admitted example_returning]
  by (simp add: example_admitted to_response_def unpack2_def)

text \<open>
  C10, as the code has it: on a running host, a request without any
  \<^verbatim>\<open>KEY_AUTHENTICATED\<close> entry, for a view that requires authentication, is answered by
  raising \<^verbatim>\<open>HTTPUnauthorized\<close>; the handler is not called.
\<close>

theorem absent_marker_denied:
  assumes "is_running (app_hass rq)" and "requires_auth vw"
    and "items rq KEY_AUTHENTICATED = None"
  shows "handle vw handler rq w = (Inl HTTPUnauthorized, w)"
  using assms by (simp add: handle_def request_get_def)

theorem absent_marker_denied_witness:
  "is_running (app_hass (example_request\<lparr>items := Map.empty\<rparr>)) \<and>
   requires_auth example_view \<and>
   items (example_request\<lparr>items := Map.empty\<rparr>) KEY_AUTHENTICATED = None \<and>
   handle example_view (returning (PyStr (str ''ok''))) (example_request\<lparr>items := Map.empty\<rparr>)
       example_world
     = (Inl HTTPUnauthorized, \<lparr>logged = [], store = 0\<rparr>)"
  using absent_marker_denied [of "example_request\<lparr>items := Map.empty\<rparr>" example_view
      "returning (PyStr (str ''ok''))" example_world]
  by (simp add: example_defs)

text \<open>
  C10 as stated fails when the host is not running: the request without a marker, for a
  view that requires authentication, gets the response of status 503 (line 396), not
  \<^verbatim>\<open>HTTPUnauthorized\<close>.
\<close>

theorem absent_marker_not_running:
  "requires_auth example_view \<and>
   items (example_request\<lparr>app_hass := \<lparr>is_running = False\<rparr>, items := Map.empty\<rparr>)
     KEY_AUTHENTICATED = None \<and>
   handle example_view (returning (PyStr (str ''ok'')))
       (example_request\<lparr>app_hass := \<lparr>is_running = False\<rparr>, items := Map.empty\<rparr>) example_world
     = (Inr (Response None (PyInt 503) None None False), \<lparr>logged = [], store = 0\<rparr>) \<and>
   fst (handle example_view (returning (PyStr (str ''ok'')))
       (example_request\<lparr>app_hass := \<lparr>is_running = False\<rparr>, items := Map.empty\<rparr>) example_world)
     \<noteq> Inl HTTPUnauthorized"
  by (simp add: handle_def web_Response_def example_defs)

subsection \<open>The JSON response helper\<close>





subsection \<open>Starting the server\<close>

lemma make_context_app [simp]:
  "make_context env (self\<lparr>app := ap\<rparr>) = make_context env self"
  by (simp add: make_context_def split: option.splits)

lemma example_server_simps:
  "example_server b t =
     \<lparr>app = \<lparr>middlewares = [staticresource_middleware], frozen = False, started = False,
             real_ip = Some False,
             bans = (if b then Some \<lparr>login_threshold = t, failed_login_attempts = (\<lambda>a. 0)\<rparr> else None),
             auth = Some \<lparr>trusted_networks = [(167772160, 167772415)], api_password = Some (str ''secret'')\<rparr>,
             cors = None, hass_entry = Some \<lparr>is_running = False\<rparr>\<rparr>,
      the_hass = \<lparr>is_running = False\<rparr>, http_api_password = Some (str ''secret''),
      ssl_certificate = None, ssl_key = None, server_host = str ''0.0.0.0'', server_port = 8123,
      is_ban_enabled = b, priv_handler = None, server = None\<rparr>"
  by (simp add: example_server_def init_def web_Application_def setup_real_ip_def setup_bans_def
      setup_auth_def setup_cors_def Let_def)

text \<open>
  C8, as the code has it: when the TLS context is made (or none is asked for) and
  \<^verbatim>\<open>create_server\<close> raises \<^verbatim>\<open>OSError\<close>, the error is logged and \<^verbatim>\<open>self.server\<close>
  is left as it was; the handler made before the attempt stays in \<^verbatim>\<open>self._handler\<close>,
  and the steps after the attempt still run: the middlewares are prepared and the frozen
  flag is cleared.
\<close>

theorem bind_failure_logged:
  assumes "make_context env self = Inr context"
    and "create_server env (make_handler env ((app self)\<lparr>started := True, frozen := True\<rparr>))
           (server_host self) (server_port self) context = Inl err"
  shows "start env self lg =
           (self\<lparr>app := (app self)\<lparr>started := True, frozen := False,
                     middlewares := prepare_middleware env (middlewares (app self))\<rparr>,
                 priv_handler := Some (make_handler env ((app self)\<lparr>started := True, frozen := True\<rparr>))\<rparr>,
            lg @ [CreateServerFailed (server_port self) err])"
  using assms by (simp add: start_def bind_server_def Let_def)

theorem bind_failure_logged_witness:
  "make_context port_in_use (example_server True 3) = Inr None \<and>
   create_server port_in_use
     (make_handler port_in_use ((app (example_server True 3))\<lparr>started := True, frozen := True\<rparr>))
     (server_host (example_server True 3)) (server_port (example_server True 3)) None
     = Inl ''address already in use'' \<and>
   start port_in_use (example_server True 3) []
     = ((example_server True 3)
          \<lparr>app := (app (example_server True 3))\<lparr>started := True\<rparr>, priv_handler := Some 1\<rparr>,
        [CreateServerFailed 8123 ''address already in use''])"
proof -
  have c: "make_context port_in_use (example_server True 3) = Inr None"
    by (simp add: make_context_def example_server_simps)
  have b: "create_server port_in_use
     (make_handler port_in_use ((app (example_server True 3))\<lparr>started := True, frozen := True\<rparr>))
     (server_host (example_server True 3)) (server_port (example_server True 3)) None
     = Inl ''address already in use''"
    by (simp add: port_in_use_def)
  show ?thesis
    using c b bind_failure_logged [of port_in_use "example_server True 3" None
        "''address already in use''" "[]"]
    by (simp add: example_server_simps port_in_use_def)
qed

text \<open>
  C8 as stated fails: with a port that cannot be bound, \<open>start\<close> leaves the request
  handler installed, on an application that has been started.
\<close>

theorem bind_failure_handler_installed:
  "create_server port_in_use 1 (str ''0.0.0.0'') 8123 None = Inl ''address already in use'' \<and>
   priv_handler (example_server True 3) = None \<and>
   priv_handler (fst (start port_in_use (example_server True 3) [])) = Some 1 \<and>
   started (app (fst (start port_in_use (example_server True 3) [])))"
  by (simp add: start_def bind_server_def make_context_def Let_def example_server_simps
      port_in_use_def)

subsection \<open>The ban tracker\<close>

text \<open>
  The tracker counts exactly the failed attempts: after any requests, its count for an
  address is the count before plus the failed attempts of that address among them, and
  its threshold is unchanged.
\<close>

lemma screen_all_append:
  "snd (screen_all ap (xs @ ys)) = snd (screen_all (snd (screen_all ap xs)) ys)"
  by (induction xs arbitrary: ap) (simp_all add: split_beta)

lemma failed_attempts_Nil [simp]: "failed_attempts ap [] a = 0"
  by (simp add: failed_attempts_def)

lemma failed_attempts_Cons:
  "failed_attempts ap (rq # rqs) a =
     (if source rq = a \<and> fst (screen ap rq) = Unauthenticated then 1 else 0)
       + failed_attempts (snd (screen ap rq)) rqs a"
  by (auto simp: failed_attempts_def split: prod.splits)

lemma screen_counts:
  assumes "bans ap = Some t"
  shows "\<exists>t'. bans (snd (screen ap rq)) = Some t' \<and> login_threshold t' = login_threshold t \<and>
           failed_login_attempts t' a = failed_login_attempts t a
             + (if source rq = a \<and> fst (screen ap rq) = Unauthenticated then 1 else 0)"
  using assms by (auto simp: screen_def process_wrong_login_def)

lemma screen_all_counts:
  assumes "bans ap = Some t"
  shows "\<exists>t'. bans (snd (screen_all ap rqs)) = Some t' \<and> login_threshold t' = login_threshold t \<and>
           failed_login_attempts t' a = failed_login_attempts t a + failed_attempts ap rqs a"
  using assms
proof (induction rqs arbitrary: ap t)
  case Nil
  then show ?case by simp
next
  case (Cons rq rqs)
  from screen_counts [OF Cons.prems, of rq a] obtain t1 where
    t1: "bans (snd (screen ap rq)) = Some t1" "login_threshold t1 = login_threshold t"
      "failed_login_attempts t1 a = failed_login_attempts t a
         + (if source rq = a \<and> fst (screen ap rq) = Unauthenticated then 1 else 0)"
    by blast
  from Cons.IH [OF t1(1)] obtain t2 where
    t2: "bans (snd (screen_all (snd (screen ap rq)) rqs)) = Some t2"
      "login_threshold t2 = login_threshold t1"
      "failed_login_attempts t2 a = failed_login_attempts t1 a
         + failed_attempts (snd (screen ap rq)) rqs a"
    by blast
  have "snd (screen_all ap (rq # rqs)) = snd (screen_all (snd (screen ap rq)) rqs)"
    by (simp split: prod.splits)
  with t1 t2 show ?case
    by (simp add: failed_attempts_Cons)
qed

lemma screen_banned:
  assumes "bans ap = Some t" and "is_banned t (source rq)"
  shows "screen ap rq = (Rejected, ap)"
  using assms by (simp add: screen_def)

lemma standing_ban:
  assumes "bans ap = Some t" and "login_threshold t \<noteq> NO_LOGIN_ATTEMPT_THRESHOLD"
    and "login_threshold t \<le> int (failed_attempts ap pre (source rq))"
  shows "screen (snd (screen_all ap (pre @ mid))) rq = (Rejected, snd (screen_all ap (pre @ mid)))"
proof -
  from screen_all_counts [OF assms(1), of pre "source rq"] obtain t1 where
    t1: "bans (snd (screen_all ap pre)) = Some t1" "login_threshold t1 = login_threshold t"
      "failed_login_attempts t1 (source rq)
         = failed_login_attempts t (source rq) + failed_attempts ap pre (source rq)"
    by blast
  from screen_all_counts [OF t1(1), of mid "source rq"] obtain t2 where
    t2: "bans (snd (screen_all (snd (screen_all ap pre)) mid)) = Some t2"
      "login_threshold t2 = login_threshold t1"
      "failed_login_attempts t2 (source rq)
         = failed_login_attempts t1 (source rq)
           + failed_attempts (snd (screen_all ap pre)) mid (source rq)"
    by blast
  have "is_banned t2 (source rq)"
    using assms(2,3) t1 t2 by (simp add: is_banned_def)
  with t2(1) show ?thesis
    by (simp add: screen_all_append screen_banned)
qed

lemma init_bans:
  "bans (app (init hs pw cert key host port origins xff nets threshold True))
     = Some \<lparr>login_threshold = threshold, failed_login_attempts = (\<lambda>a. 0)\<rparr>"
  by (simp add: init_def web_Application_def setup_real_ip_def setup_bans_def
      setup_auth_def setup_cors_def Let_def)

text \<open>
  C1, as the code has it: on a server made with ban tracking enabled and a threshold that
  is not \<^verbatim>\<open>NO_LOGIN_ATTEMPT_THRESHOLD\<close>, once the failed attempts of an address have
  reached the threshold, every later request from that address, whatever it presents, is
  rejected, and the application is left as it was: no credential is checked and nothing
  is counted.
\<close>

theorem ban_is_standing:
  fixes srv :: "('h, 'v) HomeAssistantHTTP"
  assumes "srv = init hs pw cert key host port origins xff nets threshold True"
    and "threshold \<noteq> NO_LOGIN_ATTEMPT_THRESHOLD"
    and "threshold \<le> int (failed_attempts (app srv) pre a)"
    and "source rq = a"
  shows "screen (snd (screen_all (app srv) (pre @ mid))) rq
           = (Rejected, snd (screen_all (app srv) (pre @ mid)))"
proof -
  have "bans (app srv) = Some \<lparr>login_threshold = threshold, failed_login_attempts = (\<lambda>a. 0)\<rparr>"
    using assms(1) by (simp add: init_bans)
  from standing_ban [OF this, of pre rq mid] assms(2,3,4) show ?thesis
    by simp
qed

lemmas screen_defs = screen_def authenticate_def is_trusted_ip_def is_banned_def
  process_wrong_login_def NO_LOGIN_ATTEMPT_THRESHOLD_def wrong_login_def right_login_def
  str_def

lemma two_wrong_logins:
  "failed_attempts (app (example_server b t)) [wrong_login, wrong_login] 3232235777
     = (if b \<and> t \<noteq> - 1 \<and> t \<le> 0 then 0 else if b \<and> t = 1 then 1 else 2)"
  by (simp add: failed_attempts_Cons example_server_simps screen_defs)

theorem ban_is_standing_witness:
  "example_server True 2
     = init \<lparr>is_running = False\<rparr> (Some (str ''secret'')) None None (str ''0.0.0.0'') 8123 []
         False [(167772160, 167772415)] 2 True \<and>
   (2 :: int) \<noteq> NO_LOGIN_ATTEMPT_THRESHOLD \<and>
   2 \<le> int (failed_attempts (app (example_server True 2)) [wrong_login, wrong_login] 3232235777) \<and>
   source right_login = 3232235777 \<and>
   fst (screen (snd (screen_all (app (example_server True 2))
          ([wrong_login, wrong_login] @ [right_login]))) right_login) = Rejected"
proof -
  have s: "example_server True 2
     = init \<lparr>is_running = False\<rparr> (Some (str ''secret'')) None None (str ''0.0.0.0'') 8123 []
         False [(167772160, 167772415)] 2 True"
    by (simp add: example_server_def)
  have t: "(2 :: int) \<noteq> NO_LOGIN_ATTEMPT_THRESHOLD"
    by (simp add: NO_LOGIN_ATTEMPT_THRESHOLD_def)
  have c: "2 \<le> int (failed_attempts (app (example_server True 2)) [wrong_login, wrong_login]
      3232235777)"
    by (simp add: two_wrong_logins)
  have a: "source right_login = 3232235777"
    by (simp add: right_login_def)
  show ?thesis
    using s t c a
      ban_is_standing [of "example_server True 2" "\<lparr>is_running = False\<rparr>" "Some (str ''secret'')"
        None None "str ''0.0.0.0''" 8123 "[]" False "[(167772160, 167772415)]" 2
        "[wrong_login, wrong_login]" 3232235777 right_login "[right_login]"]
    by simp
qed

text \<open>
  Without a tracker, and with a tracker whose threshold is unlimited, no request is ever
  rejected; the tracker with the unlimited threshold still counts every failed attempt
  (\<open>screen_all_counts\<close>).
\<close>

lemma init_no_bans:
  "bans (app (init hs pw cert key host port origins xff nets threshold False)) = None"
  by (simp add: init_def web_Application_def setup_real_ip_def setup_auth_def setup_cors_def
      Let_def)

lemma no_tracker_never_rejects:
  assumes "bans ap = None"
  shows "Rejected \<notin> set (fst (screen_all ap rqs))"
  using assms
proof (induction rqs arbitrary: ap)
  case Nil
  then show ?case by simp
next
  case (Cons rq rqs)
  have "fst (screen ap rq) \<noteq> Rejected" and "bans (snd (screen ap rq)) = None"
    using Cons.prems by (simp_all add: screen_def)
  with Cons.IH [of "snd (screen ap rq)"] show ?case
    by (simp add: split_beta)
qed

lemma unlimited_never_rejects:
  assumes "bans ap = Some t" and "login_threshold t = NO_LOGIN_ATTEMPT_THRESHOLD"
  shows "Rejected \<notin> set (fst (screen_all ap rqs))"
  using assms
proof (induction rqs arbitrary: ap t)
  case Nil
  then show ?case by simp
next
  case (Cons rq rqs)
  have r: "fst (screen ap rq) \<noteq> Rejected"
    using Cons.prems by (simp add: screen_def is_banned_def)
  from screen_counts [OF Cons.prems(1), of rq "source rq"] obtain t1 where
    "bans (snd (screen ap rq)) = Some t1" and "login_threshold t1 = login_threshold t"
    by blast
  with Cons.IH [of "snd (screen ap rq)" t1] Cons.prems(2) r show ?case
    by (simp add: split_beta)
qed

text \<open>
  C1 as stated fails on a server made with ban tracking disabled (lines 184 and 185 install
  no tracker), and on one whose threshold is \<^verbatim>\<open>NO_LOGIN_ATTEMPT_THRESHOLD\<close>: after two
  failed attempts, with a threshold of 2 in the first case, the right password is accepted.
\<close>

theorem ban_disabled_no_lockout:
  "is_ban_enabled (example_server False 2) = False \<and>
   (2 :: int) \<le> int (failed_attempts (app (example_server False 2)) [wrong_login, wrong_login]
      3232235777) \<and>
   source right_login = 3232235777 \<and>
   fst (screen (snd (screen_all (app (example_server False 2)) [wrong_login, wrong_login]))
      right_login) = Authenticated \<and>
   NO_LOGIN_ATTEMPT_THRESHOLD
     \<le> int (failed_attempts (app (example_server True NO_LOGIN_ATTEMPT_THRESHOLD))
          [wrong_login, wrong_login] 3232235777) \<and>
   fst (screen (snd (screen_all (app (example_server True NO_LOGIN_ATTEMPT_THRESHOLD))
      [wrong_login, wrong_login])) right_login) = Authenticated"
  by (simp add: two_wrong_logins) (simp add: example_server_simps screen_defs)

end
